theory Spec2Isabelle
  imports Main "HOL-Library.Word"
begin

unbundle bit_operations_syntax

section \<open>The cgo boundary\<close>

text \<open>
  The Go sources call the solver's C library through cgo. Terms, solvers and other
  library objects are opaque handles; all of their state lives in the library's
  context, which the model passes explicitly (type variable \<open>'c\<close>) to every entry
  point that reads or changes it. The library itself is not part of the repository:
  each Go file is modelled over a record holding the C entry points it calls.
\<close>

type_synonym Z3_ast = nat
type_synonym Z3_solver = nat

text \<open>Go's \<open>int\<close> on a 64-bit platform, and C's \<open>int\<close> and \<open>unsigned\<close>.\<close>

type_synonym go_int = "64 word"
type_synonym c_int = "32 word"
type_synonym c_uint = "32 word"

text \<open>
  The Go types \<open>Bool\<close>, \<open>String\<close>, ... are all the struct \<open>value\<close>, whose field \<open>c\<close> is
  the term's handle (its context is passed explicitly here).
\<close>

datatype z3value = Value (c: Z3_ast)

type_synonym Bool = z3value
type_synonym String = z3value

text \<open>
  Modelled from the spec: \<open>wrapValue\<close> (value.go is not among the sources). The spec
  describes the relay as "marshal arguments, call one native entry point, wrap the
  resulting handle": \<open>wrapValue\<close> runs the closure that makes the term against the
  context and wraps the handle it returns.
\<close>

definition wrapValue :: "'c \<Rightarrow> ('c \<Rightarrow> Z3_ast \<times> 'c) \<Rightarrow> z3value \<times> 'c" where
  "wrapValue ctx mk = (let (a, ctx') = mk ctx in (Value a, ctx'))"

text \<open>
  A panic is either raised by the code with a message or by the Go runtime for an
  index out of range (the index and the length).
\<close>

datatype panic = Panic string | IndexOutOfRange nat nat

text \<open>
  A C string (\<open>Z3_string\<close>, \<open>char *\<close>) is the run of bytes before the first NUL byte.
  \<open>C.CString\<close> copies a Go string and appends a NUL; what C code can read of the copy
  is the part of the Go string before its first NUL byte. \<open>C.GoString\<close> copies the
  bytes of a C string back into a Go string.
\<close>

typedef cstring = "{s :: string. CHR 0x00 \<notin> set s}"
  by (rule exI [of _ "[]"]) simp

setup_lifting type_definition_cstring

lift_definition CString :: "string \<Rightarrow> cstring" is
  "takeWhile (\<lambda>b. b \<noteq> CHR 0x00)"
  by (auto dest: set_takeWhileD)

lift_definition GoString :: "cstring \<Rightarrow> string" is "\<lambda>s. s" .

section \<open>solver.go: checking satisfiability\<close>

text \<open>The C enumeration \<open>Z3_lbool\<close>.\<close>

datatype Z3_lbool = Z3_L_FALSE | Z3_L_UNDEF | Z3_L_TRUE

text \<open>
  \<open>ErrSatUnknown\<close> is the only error \<open>Check\<close> produces; a Go \<open>error\<close> is \<open>None\<close>
  when it is nil.
\<close>

datatype ErrSatUnknown = ErrSatUnknown (Reason: string)

definition Error :: "ErrSatUnknown \<Rightarrow> string" where
  "Error e = Reason e"

record 'c solver_lib =
  Z3_solver_check :: "'c \<Rightarrow> Z3_solver \<Rightarrow> Z3_lbool \<times> 'c"
  Z3_solver_get_reason_unknown :: "'c \<Rightarrow> Z3_solver \<Rightarrow> cstring"

text \<open>
  \<open>Solver.Check\<close>: \<open>err\<close> starts as nil and is set only in the branch for
  \<open>Z3_L_UNDEF\<close>; the boolean is \<open>res == Z3_L_TRUE\<close> in every case.
\<close>

definition Check ::
  "'c solver_lib \<Rightarrow> 'c \<Rightarrow> Z3_solver \<Rightarrow> (bool \<times> ErrSatUnknown option) \<times> 'c" where
  "Check lib ctx s =
     (let (res, ctx') = Z3_solver_check lib ctx s;
          err = (if res = Z3_L_UNDEF
                 then Some (ErrSatUnknown (GoString (Z3_solver_get_reason_unknown lib ctx' s)))
                 else None)
      in ((res = Z3_L_TRUE, err), ctx'))"

section \<open>pb.go: pseudo-Boolean constraints\<close>

record 'c pb_lib =
  Z3_mk_pble :: "'c \<Rightarrow> c_uint \<Rightarrow> Z3_ast list \<Rightarrow> c_int list \<Rightarrow> c_int \<Rightarrow> Z3_ast \<times> 'c"
  Z3_mk_pbge :: "'c \<Rightarrow> c_uint \<Rightarrow> Z3_ast list \<Rightarrow> c_int list \<Rightarrow> c_int \<Rightarrow> Z3_ast \<times> 'c"
  Z3_mk_pbeq :: "'c \<Rightarrow> c_uint \<Rightarrow> Z3_ast list \<Rightarrow> c_int list \<Rightarrow> c_int \<Rightarrow> Z3_ast \<times> 'c"

text \<open>\<open>make([]T, n)\<close>: a slice of \<open>n\<close> zero values.\<close>

definition make_slice :: "nat \<Rightarrow> 'a::zero list" where
  "make_slice n = replicate n 0"

text \<open>
  The loop \<open>for i, arg := range args { cargs[i] = arg.c; ccoeffs[i] = C.int(coeffs[i]) }\<close>,
  started at index \<open>i\<close> with the rest of \<open>args\<close>. Every indexing is checked as the Go
  runtime checks it: \<open>cargs[i]\<close> of the first statement, then \<open>coeffs[i]\<close> and
  \<open>ccoeffs[i]\<close> of the second. \<open>C.int(x)\<close> keeps the low 32 bits of \<open>x\<close>.
\<close>

fun range_args ::
  "Bool list \<Rightarrow> go_int list \<Rightarrow> nat \<Rightarrow> Z3_ast list \<times> c_int list
     \<Rightarrow> panic + (Z3_ast list \<times> c_int list)" where
  "range_args [] coeffs i (cargs, ccoeffs) = Inr (cargs, ccoeffs)"
| "range_args (arg # rest) coeffs i (cargs, ccoeffs) =
     (if length cargs \<le> i then Inl (IndexOutOfRange i (length cargs))
      else if length coeffs \<le> i then Inl (IndexOutOfRange i (length coeffs))
      else if length ccoeffs \<le> i then Inl (IndexOutOfRange i (length ccoeffs))
      else range_args rest coeffs (Suc i)
             (cargs[i := c arg], ccoeffs[i := ucast (coeffs ! i)]))"

text \<open>
  The bodies of \<open>PbLE\<close>, \<open>PbGE\<close> and \<open>PbEq\<close> differ only in the entry point \<open>mk\<close>
  they call. The length check comes first; the closure given to \<open>wrapValue\<close> takes
  \<open>&cargs[0]\<close> and \<open>&ccoeffs[0]\<close> before it calls the library, and each of them
  panics on an empty slice. A panic leaves the context as it was.
\<close>

definition pb_constraint ::
  "('c \<Rightarrow> c_uint \<Rightarrow> Z3_ast list \<Rightarrow> c_int list \<Rightarrow> c_int \<Rightarrow> Z3_ast \<times> 'c)
     \<Rightarrow> 'c \<Rightarrow> Bool list \<Rightarrow> go_int list \<Rightarrow> go_int \<Rightarrow> (panic + Bool) \<times> 'c" where
  "pb_constraint mk ctx args coeffs k =
     (if length args \<noteq> length coeffs
      then (Inl (Panic ''args and coeffs must have the same length''), ctx)
      else
        (case range_args args coeffs 0 (make_slice (length args), make_slice (length coeffs)) of
           Inl p \<Rightarrow> (Inl p, ctx)
         | Inr (cargs, ccoeffs) \<Rightarrow>
             if cargs = [] then (Inl (IndexOutOfRange 0 (length cargs)), ctx)
             else if ccoeffs = [] then (Inl (IndexOutOfRange 0 (length ccoeffs)), ctx)
             else
               (let (val, ctx') =
                      wrapValue ctx
                        (\<lambda>ctx. mk ctx (of_nat (length cargs)) cargs ccoeffs (ucast k))
                in (Inr val, ctx'))))"

definition PbLE ::
  "'c pb_lib \<Rightarrow> 'c \<Rightarrow> Bool list \<Rightarrow> go_int list \<Rightarrow> go_int \<Rightarrow> (panic + Bool) \<times> 'c" where
  "PbLE lib = pb_constraint (Z3_mk_pble lib)"

definition PbGE ::
  "'c pb_lib \<Rightarrow> 'c \<Rightarrow> Bool list \<Rightarrow> go_int list \<Rightarrow> go_int \<Rightarrow> (panic + Bool) \<times> 'c" where
  "PbGE lib = pb_constraint (Z3_mk_pbge lib)"

definition PbEq ::
  "'c pb_lib \<Rightarrow> 'c \<Rightarrow> Bool list \<Rightarrow> go_int list \<Rightarrow> go_int \<Rightarrow> (panic + Bool) \<times> 'c" where
  "PbEq lib = pb_constraint (Z3_mk_pbeq lib)"

text \<open>
  A library instance to run the functions on: the context is the list of the calls
  made so far (entry point and arguments), and a new term's handle is the number of
  calls made.
\<close>

type_synonym pb_call = "string \<times> c_uint \<times> Z3_ast list \<times> c_int list \<times> c_int"

definition recording_pb_lib :: "pb_call list pb_lib" where
  "recording_pb_lib =
     \<lparr>Z3_mk_pble = (\<lambda>ctx n cargs ccoeffs k.
        (Suc (length ctx), ctx @ [(''Z3_mk_pble'', n, cargs, ccoeffs, k)])),
      Z3_mk_pbge = (\<lambda>ctx n cargs ccoeffs k.
        (Suc (length ctx), ctx @ [(''Z3_mk_pbge'', n, cargs, ccoeffs, k)])),
      Z3_mk_pbeq = (\<lambda>ctx n cargs ccoeffs k.
        (Suc (length ctx), ctx @ [(''Z3_mk_pbeq'', n, cargs, ccoeffs, k)]))\<rparr>"

section \<open>string.go: string literals\<close>

record 'c string_lib =
  Z3_mk_string :: "'c \<Rightarrow> cstring \<Rightarrow> Z3_ast \<times> 'c"
  Z3_is_string :: "'c \<Rightarrow> Z3_ast \<Rightarrow> bool"
  Z3_get_string :: "'c \<Rightarrow> Z3_ast \<Rightarrow> cstring"

definition FromString :: "'c string_lib \<Rightarrow> 'c \<Rightarrow> string \<Rightarrow> String \<times> 'c" where
  "FromString lib ctx val =
     (let cstr = CString val
      in wrapValue ctx (\<lambda>ctx. Z3_mk_string lib ctx cstr))"

text \<open>
  \<open>AsString\<close> asks the library whether the term is a string literal and reads its
  text only if it is.
\<close>

definition AsString :: "'c string_lib \<Rightarrow> 'c \<Rightarrow> String \<Rightarrow> string \<times> bool" where
  "AsString lib ctx lit =
     (let isStr = Z3_is_string lib ctx (c lit)
      in if \<not> isStr then ('''', False)
         else (GoString (Z3_get_string lib ctx (c lit)), True))"

text \<open>
  A library instance to run the functions on: the context is the list of the string
  literals made so far, a literal's handle is its position in the list counted from
  1, and a literal's text is read back as it was given.
\<close>

definition storing_string_lib :: "cstring list string_lib" where
  "storing_string_lib =
     \<lparr>Z3_mk_string = (\<lambda>ctx s. (Suc (length ctx), ctx @ [s])),
      Z3_is_string = (\<lambda>ctx a. 0 < a \<and> a \<le> length ctx),
      Z3_get_string = (\<lambda>ctx a. ctx ! (a - 1))\<rparr>"

section \<open>st: the 8-bit unsigned dual value and the solver's bit-vector theory\<close>

text \<open>
  Modelled from the spec: the solver's terms of the 8-bit bit-vector sort and the
  assertions over them (the solver is outside the repository; the relay's \<open>BV\<close> type
  is not among the sources). The spec's interface: "declare a free constant of a
  sort; construct a literal term of a sort from a native value; build compound terms
  for each supported operator; assert a term as a constraint; check satisfiability".
  \<open>BVConst\<close> is a free constant, \<open>BVLit\<close> a literal, \<open>BVAdd\<close> the sum of two terms;
  \<open>Eq\<close> and \<open>NE\<close> are the assertions that two terms are equal or distinct.
\<close>

datatype bv8 = BVConst string | BVLit "8 word" | BVAdd bv8 bv8

datatype assertion = Eq bv8 bv8 | NE bv8 bv8

text \<open>
  Modelled from the spec: the addition of the solver's bit-vector theory, which the
  spec requires to agree with "two's-complement wraparound". It is written on the
  numbers the two bit vectors stand for, as the theory of fixed-size bit vectors
  defines it: their sum modulo \<open>2 ^ 8\<close>.
\<close>

definition bvadd :: "8 word \<Rightarrow> 8 word \<Rightarrow> 8 word" where
  "bvadd s t = of_nat ((unat s + unat t) mod 2 ^ 8)"

text \<open>The value of a term, and the truth of an assertion, under a model \<open>M\<close> of the free constants.\<close>

fun bv_eval :: "(string \<Rightarrow> 8 word) \<Rightarrow> bv8 \<Rightarrow> 8 word" where
  "bv_eval M (BVConst x) = M x"
| "bv_eval M (BVLit w) = w"
| "bv_eval M (BVAdd s t) = bvadd (bv_eval M s) (bv_eval M t)"

fun holds :: "(string \<Rightarrow> 8 word) \<Rightarrow> assertion \<Rightarrow> bool" where
  "holds M (Eq s t) = (bv_eval M s = bv_eval M t)"
| "holds M (NE s t) = (bv_eval M s \<noteq> bv_eval M t)"

text \<open>
  Modelled from the spec: the solver's verdict on a session's assertions. They are
  satisfiable when some model makes all of them true, unsatisfiable when none does.
\<close>

definition satisfiable :: "assertion list \<Rightarrow> bool" where
  "satisfiable asserted = (\<exists>M. list_all (holds M) asserted)"

text \<open>
  Modelled from the spec: the dual value of the 8-bit unsigned kind (the st package's
  types are not among the sources; its tests build \<open>Uint8{C: 42}\<close> and read \<open>x.S\<close>).
  "A tagged union of {Concrete(nativeValue), Symbolic(solverTerm)}"; \<open>fromLiteral\<close> is
  "always concrete", the fresh constructor \<open>AnyUint8\<close> "always symbolic, drawn as a free
  solver constant of the kind's sort". \<open>sym\<close> is the term a value stands for: its
  literal when it is concrete.
\<close>

datatype Uint8 = Concrete (C: "8 word") | Symbolic (S: bv8)

definition fromLiteral :: "8 word \<Rightarrow> Uint8" where
  "fromLiteral v = Concrete v"

definition AnyUint8 :: "string \<Rightarrow> Uint8" where
  "AnyUint8 name = Symbolic (BVConst name)"

definition sym :: "Uint8 \<Rightarrow> bv8" where
  "sym x = (case x of Concrete v \<Rightarrow> BVLit v | Symbolic t \<Rightarrow> t)"

text \<open>
  Modelled from the spec: \<open>Uint8.Add\<close>. An operator "implements the native semantics
  when both operands are concrete (computed directly, no solver involvement), and
  builds the equivalent solver term when at least one operand is symbolic"; natively
  "addition ... wrap[s] silently", as Go's \<open>+\<close> on \<open>uint8\<close> does.
\<close>

definition Add :: "Uint8 \<Rightarrow> Uint8 \<Rightarrow> Uint8" where
  "Add x y =
     (case (x, y) of
        (Concrete a, Concrete b) \<Rightarrow> Concrete (a + b)
      | _ \<Rightarrow> Symbolic (BVAdd (sym x) (sym y)))"

text \<open>
  Modelled from the spec: the oracle's session for an addition. "Construct symbolic
  operands bound by equality to the same literals (\<open>symbolic_a == literal(a)\<close>),
  compute the symbolic result term \<open>op(symbolic_a, symbolic_b)\<close>".
\<close>

definition bound_operands :: "8 word \<Rightarrow> 8 word \<Rightarrow> assertion list" where
  "bound_operands a b =
     [Eq (sym (AnyUint8 ''a'')) (sym (fromLiteral a)),
      Eq (sym (AnyUint8 ''b'')) (sym (fromLiteral b))]"

definition symbolic_add :: bv8 where
  "symbolic_add = sym (Add (AnyUint8 ''a'') (AnyUint8 ''b''))"

section \<open>internal/ops: the classification flags\<close>

text \<open>
  Modelled from the spec: the flags of ops.go and its two derived sets (ops.go is not
  among the sources; its test is). The spec's flags are \<open>IsBool\<close>, \<open>IsInteger\<close>,
  \<open>IsUnsigned\<close>, \<open>IsFloat\<close>, \<open>IsBigInt\<close>, \<open>IsBigRat\<close> for kinds and \<open>OpCompare\<close>,
  \<open>OpShift\<close>, \<open>OpPos\<close> for operators. A value of type \<open>Flags\<close> is a bit mask with one
  bit per flag, modelled as the set of the flags whose bit is set: \<open>x & y\<close> is the
  intersection and \<open>x == 0\<close> says the set is empty. "\<open>Comparable\<close> = kinds for which
  \<open>==\<close>/\<open>!=\<close> are defined (all kinds); \<open>Ordered\<close> = kinds for which \<open><\<close>, \<open><=\<close>, \<open>>\<close>, \<open>>=\<close>
  are defined (all except boolean)".
\<close>

datatype Flag =
  IsBool | IsInteger | IsUnsigned | IsFloat | IsBigInt | IsBigRat
  | OpCompare | OpShift | OpPos

type_synonym Flags = "Flag set"

definition Comparable :: Flags where
  "Comparable = {IsBool, IsInteger, IsFloat, IsBigInt, IsBigRat}"

definition Ordered :: Flags where
  "Ordered = {IsInteger, IsFloat, IsBigInt, IsBigRat}"

text \<open>
  \<open>TestFlags\<close> of ops_test.go, as the list of the errors it reports: one check per
  \<open>if\<close> of the test, in the test's order.
\<close>

definition TestFlags :: "string list" where
  "TestFlags =
     (if Comparable \<inter> {IsBool} = {} then [''Comparable should include IsBool''] else [])
   @ (if Comparable \<inter> {IsInteger} = {} then [''Comparable should include IsInteger''] else [])
   @ (if Comparable \<inter> {IsFloat} = {} then [''Comparable should include IsFloat''] else [])
   @ (if Comparable \<inter> {IsBigInt} = {} then [''Comparable should include IsBigInt''] else [])
   @ (if Comparable \<inter> {IsBigRat} = {} then [''Comparable should include IsBigRat''] else [])
   @ (if Ordered \<inter> {IsBool} \<noteq> {} then [''Ordered should not include IsBool''] else [])
   @ (if Ordered \<inter> {IsInteger} = {} then [''Ordered should include IsInteger''] else [])
   @ (if Ordered \<inter> {IsFloat} = {} then [''Ordered should include IsFloat''] else [])"

section \<open>Properties of the cgo boundary\<close>

text \<open>
  A Go string that goes to C and back comes back cut at its first NUL byte; a string
  read from C never holds a NUL byte.
\<close>

lemma GoString_CString:
  "GoString (CString s) = takeWhile (\<lambda>b. b \<noteq> CHR 0x00) s"
  by transfer simp

lemma GoString_CString_id:
  "CHR 0x00 \<notin> set s \<Longrightarrow> GoString (CString s) = s"
  by (auto simp: GoString_CString)

lemma GoString_no_NUL: "CHR 0x00 \<notin> set (GoString cs)"
  by transfer simp

section \<open>Properties of solver.go\<close>

text \<open>
  Claim C8. \<open>Solver.Check\<close> returns a non-nil error exactly when the library's verdict
  is \<open>Z3_L_UNDEF\<close>; the error is then an \<open>ErrSatUnknown\<close> holding the library's reason
  string, and the boolean is false. For the verdicts \<open>Z3_L_TRUE\<close> and \<open>Z3_L_FALSE\<close>
  the error is nil and the boolean is true exactly for \<open>Z3_L_TRUE\<close>.
\<close>

theorem Check_error_iff_unknown:
  assumes "Z3_solver_check lib ctx s = (res, ctx')"
      and "Check lib ctx s = ((sat, err), ctx'')"
  shows "(err \<noteq> None \<longleftrightarrow> res = Z3_L_UNDEF)
       \<and> (res = Z3_L_UNDEF \<longrightarrow>
            err = Some (ErrSatUnknown (GoString (Z3_solver_get_reason_unknown lib ctx' s)))
            \<and> \<not> sat)
       \<and> (res \<noteq> Z3_L_UNDEF \<longrightarrow> err = None \<and> (sat \<longleftrightarrow> res = Z3_L_TRUE))
       \<and> ctx'' = ctx'"
  using assms by (cases res) (auto simp: Check_def)

theorem Check_error_iff_unknown_witness:
  "Check \<lparr>Z3_solver_check = (\<lambda>ctx s. (Z3_L_UNDEF, Suc ctx)),
          Z3_solver_get_reason_unknown = (\<lambda>ctx s. CString ''canceled'')\<rparr> (0::nat) 1
     = ((False, Some (ErrSatUnknown ''canceled'')), 1)
   \<and> Check \<lparr>Z3_solver_check = (\<lambda>ctx s. (Z3_L_TRUE, Suc ctx)),
            Z3_solver_get_reason_unknown = (\<lambda>ctx s. CString '''')\<rparr> (0::nat) 1
     = ((True, None), 1)"
proof -
  let ?u = "\<lparr>Z3_solver_check = (\<lambda>ctx s. (Z3_L_UNDEF, Suc ctx)),
             Z3_solver_get_reason_unknown = (\<lambda>ctx (s::Z3_solver). CString ''canceled'')\<rparr>"
  let ?t = "\<lparr>Z3_solver_check = (\<lambda>ctx s. (Z3_L_TRUE, Suc ctx)),
             Z3_solver_get_reason_unknown = (\<lambda>ctx (s::Z3_solver). CString '''')\<rparr>"
  obtain sat err n where u: "Check ?u (0::nat) 1 = ((sat, err), n)"
    by (metis prod.exhaust)
  have "Z3_solver_check ?u (0::nat) 1 = (Z3_L_UNDEF, 1)" by simp
  from Check_error_iff_unknown [OF this u]
  have "err = Some (ErrSatUnknown ''canceled'')" "\<not> sat" "n = 1"
    by (simp_all add: GoString_CString)
  with u have 1: "Check ?u (0::nat) 1 = ((False, Some (ErrSatUnknown ''canceled'')), 1)"
    by simp
  obtain sat' err' n' where t: "Check ?t (0::nat) 1 = ((sat', err'), n')"
    by (metis prod.exhaust)
  have "Z3_solver_check ?t (0::nat) 1 = (Z3_L_TRUE, 1)" by simp
  from Check_error_iff_unknown [OF this t]
  have "err' = None" "sat'" "n' = 1"
    by simp_all
  with t have 2: "Check ?t (0::nat) 1 = ((True, None), 1)"
    by simp
  from 1 2 show ?thesis by simp
qed

section \<open>Properties of pb.go\<close>

text \<open>
  The loop fills both C arrays: when the slices given to it have the length of
  \<open>args\<close> and of \<open>coeffs\<close>, no indexing is out of range, and positions \<open>i\<close> onwards
  end up holding the handles of the remaining arguments and the truncated
  coefficients.
\<close>

lemma range_args_fills:
  "i + length rest = n \<Longrightarrow> length cargs = n \<Longrightarrow> length ccoeffs = n \<Longrightarrow>
   length coeffs = n \<Longrightarrow>
   range_args rest coeffs i (cargs, ccoeffs)
     = Inr (take i cargs @ map c rest, take i ccoeffs @ map ucast (drop i coeffs))"
proof (induction rest arbitrary: i cargs ccoeffs)
  case Nil
  then show ?case by simp
next
  case (Cons arg rest)
  from Cons.prems have i: "i < n" by simp
  have "range_args (arg # rest) coeffs i (cargs, ccoeffs)
      = range_args rest coeffs (Suc i) (cargs[i := c arg], ccoeffs[i := ucast (coeffs ! i)])"
    using Cons.prems i by simp
  also have "\<dots> = Inr (take (Suc i) (cargs[i := c arg]) @ map c rest,
                       take (Suc i) (ccoeffs[i := ucast (coeffs ! i)])
                         @ map ucast (drop (Suc i) coeffs))"
    using Cons.prems by (intro Cons.IH) simp_all
  also have "take (Suc i) (cargs[i := c arg]) = take i cargs @ [c arg]"
    using Cons.prems i by (simp add: take_Suc_conv_app_nth)
  also have "take (Suc i) (ccoeffs[i := ucast (coeffs ! i)])
           = take i ccoeffs @ [ucast (coeffs ! i)]"
    using Cons.prems i by (simp add: take_Suc_conv_app_nth)
  finally show ?case
    using Cons.prems i by (simp add: Cons_nth_drop_Suc [symmetric])
qed

lemma range_args_all:
  assumes "length args = length coeffs"
  shows "range_args args coeffs 0 (make_slice (length args), make_slice (length coeffs))
       = Inr (map c args, map ucast coeffs)"
proof -
  define n where "n = length coeffs"
  have "range_args args coeffs 0 (replicate n 0, replicate n 0)
      = Inr (take 0 (replicate n 0) @ map c args,
             take 0 (replicate n 0) @ map ucast (drop 0 coeffs))"
    by (rule range_args_fills [where n = n]) (simp_all add: n_def assms)
  then show ?thesis
    by (simp add: make_slice_def assms n_def)
qed

lemma pb_constraint_mismatch:
  "length args \<noteq> length coeffs \<Longrightarrow>
   pb_constraint mk ctx args coeffs k
     = (Inl (Panic ''args and coeffs must have the same length''), ctx)"
  by (simp add: pb_constraint_def)

lemma pb_constraint_built:
  assumes "length args = length coeffs" and "args \<noteq> []"
  shows "pb_constraint mk ctx args coeffs k
       = (case mk ctx (of_nat (length args)) (map c args) (map ucast coeffs) (ucast k) of
            (a, ctx') \<Rightarrow> (Inr (Value a), ctx'))"
proof -
  from assms have ne: "coeffs \<noteq> []" by auto
  note filled = range_args_all [OF assms(1)]
  show ?thesis
    unfolding pb_constraint_def filled
    using assms ne by (simp add: wrapValue_def split: prod.splits)
qed

lemma pb_constraint_empty:
  "pb_constraint mk ctx [] [] k = (Inl (IndexOutOfRange 0 0), ctx)"
  by (simp add: pb_constraint_def make_slice_def)

text \<open>
  Claim C9. \<open>PbLE\<close>, \<open>PbGE\<close> and \<open>PbEq\<close> panic with the message
  "args and coeffs must have the same length" whenever \<open>args\<close> and \<open>coeffs\<close> differ
  in length, and the context is then unchanged: no term has been built. When the
  lengths are equal and \<open>args\<close> is not empty they do not panic: they return the
  term the library builds from the arguments' handles, the coefficients and \<open>k\<close>.
\<close>

theorem Pb_length_check:
  "(length args \<noteq> length coeffs \<longrightarrow>
      PbLE lib ctx args coeffs k
        = (Inl (Panic ''args and coeffs must have the same length''), ctx)
    \<and> PbGE lib ctx args coeffs k
        = (Inl (Panic ''args and coeffs must have the same length''), ctx)
    \<and> PbEq lib ctx args coeffs k
        = (Inl (Panic ''args and coeffs must have the same length''), ctx))
 \<and> (length args = length coeffs \<and> args \<noteq> [] \<longrightarrow>
      PbLE lib ctx args coeffs k
        = (case Z3_mk_pble lib ctx (of_nat (length args)) (map c args)
                  (map ucast coeffs) (ucast k) of
             (a, ctx') \<Rightarrow> (Inr (Value a), ctx'))
    \<and> PbGE lib ctx args coeffs k
        = (case Z3_mk_pbge lib ctx (of_nat (length args)) (map c args)
                  (map ucast coeffs) (ucast k) of
             (a, ctx') \<Rightarrow> (Inr (Value a), ctx'))
    \<and> PbEq lib ctx args coeffs k
        = (case Z3_mk_pbeq lib ctx (of_nat (length args)) (map c args)
                  (map ucast coeffs) (ucast k) of
             (a, ctx') \<Rightarrow> (Inr (Value a), ctx')))"
  unfolding PbLE_def PbGE_def PbEq_def
  by (intro conjI impI; (elim conjE)?; (rule pb_constraint_mismatch pb_constraint_built; assumption))

theorem Pb_length_check_witness:
  "PbLE recording_pb_lib [] [Value 1, Value 2, Value 3] [1, 2] 4
     = (Inl (Panic ''args and coeffs must have the same length''), [])
 \<and> PbLE recording_pb_lib [] [Value 1, Value 2, Value 3] [1, 2, 3] 4
     = (Inr (Value 1), [(''Z3_mk_pble'', 3, [1, 2, 3], [1, 2, 3], 4)])
 \<and> PbEq recording_pb_lib [] [Value 1, Value 2] [2, 0x100000003] 5
     = (Inr (Value 1), [(''Z3_mk_pbeq'', 2, [1, 2], [2, 3], 5)])"
  using Pb_length_check [where lib = recording_pb_lib and ctx = "[]"
          and args = "[Value 1, Value 2, Value 3]" and coeffs = "[1, 2]" and k = 4]
        Pb_length_check [where lib = recording_pb_lib and ctx = "[]"
          and args = "[Value 1, Value 2, Value 3]" and coeffs = "[1, 2, 3]" and k = 4]
        Pb_length_check [where lib = recording_pb_lib and ctx = "[]"
          and args = "[Value 1, Value 2]" and coeffs = "[2, 0x100000003]" and k = 5]
  by (simp add: recording_pb_lib_def)

section \<open>Properties of string.go\<close>

lemma AsString_not_literal:
  "\<not> Z3_is_string lib ctx (c lit) \<Longrightarrow> AsString lib ctx lit = ('''', False)"
  by (simp add: AsString_def)

lemma AsString_no_NUL: "CHR 0x00 \<notin> set (fst (AsString lib ctx lit))"
  by (simp add: AsString_def GoString_no_NUL)

lemma FromString_cut:
  "FromString lib ctx s = FromString lib ctx (takeWhile (\<lambda>b. b \<noteq> CHR 0x00) s)"
proof -
  have "CString s = CString (takeWhile (\<lambda>b. b \<noteq> CHR 0x00) s)"
    by transfer simp
  then show ?thesis by (simp add: FromString_def)
qed

text \<open>
  On a library that stores the text it is given, a literal built from a string with
  no NUL byte is read back whole, as \<open>TestAsString\<close> expects of \<open>"test"\<close>.
\<close>

lemma AsString_FromString_test:
  "(case FromString storing_string_lib [] ''test'' of
      (lit, ctx') \<Rightarrow> AsString storing_string_lib ctx' lit) = (''test'', True)"
  by (simp add: FromString_def wrapValue_def AsString_def storing_string_lib_def
        GoString_CString)

text \<open>
  Claim C10 says that \<open>AsString\<close> of a value built by \<open>FromString(s)\<close> returns
  \<open>(s, true)\<close> for any Go string \<open>s\<close>. The code breaks it for a string with a NUL
  byte. For the three bytes \<open>a\<close>, NUL, \<open>b\<close>: whatever the library does and whatever
  term is read, \<open>AsString\<close> does not return that string with \<open>true\<close>; \<open>FromString\<close>
  builds the same literal from it as from \<open>a\<close> alone; and on a library that stores
  the text it is given, \<open>AsString\<close> returns \<open>("a", true)\<close> for it.
\<close>

theorem AsString_FromString_NUL_cut:
  "AsString lib ctx lit \<noteq> ([CHR ''a'', CHR 0x00, CHR ''b''], True)
 \<and> FromString strlib sctx [CHR ''a'', CHR 0x00, CHR ''b''] = FromString strlib sctx ''a''
 \<and> (case FromString storing_string_lib [] [CHR ''a'', CHR 0x00, CHR ''b''] of
      (lit', ctx') \<Rightarrow> AsString storing_string_lib ctx' lit') = (''a'', True)"
proof (intro conjI)
  have "CHR 0x00 \<notin> set (fst (AsString lib ctx lit))"
    by (rule AsString_no_NUL)
  then show "AsString lib ctx lit \<noteq> ([CHR ''a'', CHR 0x00, CHR ''b''], True)"
    by (cases "AsString lib ctx lit") auto
next
  show "FromString strlib sctx [CHR ''a'', CHR 0x00, CHR ''b''] = FromString strlib sctx ''a''"
    using FromString_cut [of strlib sctx "[CHR ''a'', CHR 0x00, CHR ''b'']"] by simp
next
  show "(case FromString storing_string_lib [] [CHR ''a'', CHR 0x00, CHR ''b''] of
      (lit', ctx') \<Rightarrow> AsString storing_string_lib ctx' lit') = (''a'', True)"
    by (simp add: FromString_def wrapValue_def AsString_def storing_string_lib_def
          GoString_CString)
qed

section \<open>Properties of the 8-bit unsigned dual value\<close>

text \<open>The theory's addition is the native one: the sum modulo \<open>2 ^ 8\<close> is the wrapped sum.\<close>

lemma bvadd_wraps: "bvadd s t = s + t"
proof -
  have "(unat s + unat t) mod 2 ^ 8 = unat (s + t)"
    by (simp add: unat_word_ariths)
  then show ?thesis
    by (simp add: bvadd_def)
qed

text \<open>
  With the operands bound to \<open>a\<close> and \<open>b\<close>, the session that asserts the symbolic sum
  equal to a literal \<open>v\<close> is satisfiable exactly when \<open>v\<close> is the native sum, and the
  session that asserts it distinct from \<open>v\<close> is satisfiable exactly when \<open>v\<close> is not.
\<close>

lemma symbolic_add_admits:
  "satisfiable (bound_operands a b @ [Eq symbolic_add (BVLit v)]) \<longleftrightarrow> v = a + b"
proof
  assume "satisfiable (bound_operands a b @ [Eq symbolic_add (BVLit v)])"
  then obtain M where "list_all (holds M) (bound_operands a b @ [Eq symbolic_add (BVLit v)])"
    unfolding satisfiable_def ..
  then show "v = a + b"
    by (auto simp: bound_operands_def symbolic_add_def Add_def sym_def AnyUint8_def
          fromLiteral_def bvadd_wraps)
next
  assume v: "v = a + b"
  let ?M = "\<lambda>x. if x = ''a'' then a else b"
  have "list_all (holds ?M) (bound_operands a b @ [Eq symbolic_add (BVLit v)])"
    by (simp add: v bound_operands_def symbolic_add_def Add_def sym_def AnyUint8_def
          fromLiteral_def bvadd_wraps)
  then show "satisfiable (bound_operands a b @ [Eq symbolic_add (BVLit v)])"
    unfolding satisfiable_def by blast
qed

lemma symbolic_add_rejects:
  "satisfiable (bound_operands a b @ [NE symbolic_add (BVLit v)]) \<longleftrightarrow> v \<noteq> a + b"
proof
  assume "satisfiable (bound_operands a b @ [NE symbolic_add (BVLit v)])"
  then obtain M where "list_all (holds M) (bound_operands a b @ [NE symbolic_add (BVLit v)])"
    unfolding satisfiable_def ..
  then show "v \<noteq> a + b"
    by (auto simp: bound_operands_def symbolic_add_def Add_def sym_def AnyUint8_def
          fromLiteral_def bvadd_wraps)
next
  assume v: "v \<noteq> a + b"
  let ?M = "\<lambda>x. if x = ''a'' then a else b"
  have "list_all (holds ?M) (bound_operands a b @ [NE symbolic_add (BVLit v)])"
    using v by (simp add: bound_operands_def symbolic_add_def Add_def sym_def AnyUint8_def
          fromLiteral_def bvadd_wraps)
  then show "satisfiable (bound_operands a b @ [NE symbolic_add (BVLit v)])"
    unfolding satisfiable_def by blast
qed

text \<open>
  Claim C2. For the 8-bit unsigned kind, adding the concrete literals 200 and 100
  yields the concrete 44, which is 300 modulo 256. With both operands bound to 200
  and 100, the symbolic sum admits 44 (asserting it equal to 44 is satisfiable) and
  no other value (asserting it distinct from 44 is unsatisfiable, and asserting it
  equal to \<open>v\<close> is satisfiable only for \<open>v = 44\<close>).
\<close>

theorem Uint8_add_200_100:
  "Add (fromLiteral 200) (fromLiteral 100) = fromLiteral 44
 \<and> unat (C (Add (fromLiteral 200) (fromLiteral 100))) = (200 + 100) mod 2 ^ 8
 \<and> satisfiable (bound_operands 200 100 @ [Eq symbolic_add (BVLit 44)])
 \<and> \<not> satisfiable (bound_operands 200 100 @ [NE symbolic_add (BVLit 44)])
 \<and> (\<forall>v. satisfiable (bound_operands 200 100 @ [Eq symbolic_add (BVLit v)]) \<longleftrightarrow> v = 44)"
proof -
  have 1: "Add (fromLiteral 200) (fromLiteral 100) = fromLiteral 44"
    by (simp add: Add_def fromLiteral_def)
  have 2: "unat (C (Add (fromLiteral 200) (fromLiteral 100))) = (200 + 100) mod 2 ^ 8"
    by (simp add: Add_def fromLiteral_def)
  have s: "(200 :: 8 word) + 100 = 44" by simp
  show ?thesis
    using 1 2 by (simp only: symbolic_add_admits symbolic_add_rejects s) simp
qed

section \<open>Properties of the classification flags\<close>

text \<open>
  Claim C7. \<open>Comparable\<close> holds every kind classification (\<open>IsBool\<close>, \<open>IsInteger\<close>,
  \<open>IsFloat\<close>, \<open>IsBigInt\<close>, \<open>IsBigRat\<close>); \<open>Ordered\<close> holds each of them except \<open>IsBool\<close>;
  so \<open>Comparable\<close> is a superset of \<open>Ordered\<close> with \<open>IsBool\<close> added. \<open>TestFlags\<close>
  reports no error on them.
\<close>

theorem Comparable_superset_Ordered:
  "IsBool \<in> Comparable \<and> IsInteger \<in> Comparable \<and> IsFloat \<in> Comparable
 \<and> IsBigInt \<in> Comparable \<and> IsBigRat \<in> Comparable
 \<and> IsBool \<notin> Ordered \<and> IsInteger \<in> Ordered \<and> IsFloat \<in> Ordered
 \<and> IsBigInt \<in> Ordered \<and> IsBigRat \<in> Ordered
 \<and> Ordered \<union> {IsBool} \<subseteq> Comparable
 \<and> TestFlags = []"
  by (simp add: Comparable_def Ordered_def TestFlags_def)

end
